theory Spec2Isabelle
  imports Complex_Main
begin

section \<open>Python values, exceptions and string primitives\<close>

text \<open>
  The repository is Python. Strings are lists of characters; the characters of the model are
  the code points below 256. Values that come out of \<^verbatim>\<open>json.loads\<close> and the dictionaries the
  program builds are values of \<open>pyval\<close>; a dictionary is an association list in insertion
  order, as a Python dict is.
\<close>

datatype exc_class =
  ImportError | ModuleNotFoundError | ValueError | JSONDecodeError | TypeError
  | AttributeError | NameError | IndexError | OSError | WebDriverException | RuntimeError

text \<open>An exception object: its class and \<^verbatim>\<open>str(e)\<close>. Every class of the model derives from
  \<^verbatim>\<open>Exception\<close>; \<open>is_instance\<close> is Python's subclass test for the handlers the code has.\<close>

datatype exn = Exn (exn_class: exc_class) (exn_str: string)

fun is_instance :: "exn \<Rightarrow> exc_class \<Rightarrow> bool" where
  "is_instance (Exn ModuleNotFoundError _) ImportError = True"
| "is_instance (Exn JSONDecodeError _) ValueError = True"
| "is_instance (Exn c _) k = (c = k)"

datatype float_val = Finite int int | Infinite bool | NaN

datatype pyval =
  PNone | PBool bool | PInt int | PFloat float_val | PStr string
  | PList "pyval list" | PDict "(string \<times> pyval) list"

type_synonym pydict = "(string \<times> pyval) list"

text \<open>\<^verbatim>\<open>d.get(k)\<close> and \<^verbatim>\<open>d[k] = v\<close> (an existing key keeps its position).\<close>

fun dict_get :: "pydict \<Rightarrow> string \<Rightarrow> pyval option" where
  "dict_get [] k = None"
| "dict_get ((k', v) # d) k = (if k' = k then Some v else dict_get d k)"

fun dict_set :: "pydict \<Rightarrow> string \<Rightarrow> pyval \<Rightarrow> pydict" where
  "dict_set [] k v = [(k, v)]"
| "dict_set ((k', v') # d) k v = (if k' = k then (k, v) # d else (k', v') # dict_set d k v)"

definition dict_get_default :: "pydict \<Rightarrow> string \<Rightarrow> pyval \<Rightarrow> pyval" where
  "dict_get_default d k dflt = (case dict_get d k of None \<Rightarrow> dflt | Some v \<Rightarrow> v)"

text \<open>Truth value of an object, \<^verbatim>\<open>len(x)\<close> and the slice \<^verbatim>\<open>x[:n]\<close>.\<close>

fun py_truthy :: "pyval \<Rightarrow> bool" where
  "py_truthy PNone = False"
| "py_truthy (PBool b) = b"
| "py_truthy (PInt i) = (i \<noteq> 0)"
| "py_truthy (PFloat (Finite m e)) = (m \<noteq> 0)"
| "py_truthy (PFloat _) = True"
| "py_truthy (PStr s) = (s \<noteq> [])"
| "py_truthy (PList xs) = (xs \<noteq> [])"
| "py_truthy (PDict d) = (d \<noteq> [])"

fun py_len :: "pyval \<Rightarrow> exn + nat" where
  "py_len (PStr s) = Inr (length s)"
| "py_len (PList xs) = Inr (length xs)"
| "py_len (PDict d) = Inr (length d)"
| "py_len _ = Inl (Exn TypeError ''object has no len()'')"

fun py_slice_to :: "nat \<Rightarrow> pyval \<Rightarrow> exn + pyval" where
  "py_slice_to n (PStr s) = Inr (PStr (take n s))"
| "py_slice_to n (PList xs) = Inr (PList (take n xs))"
| "py_slice_to n _ = Inl (Exn TypeError ''object is not subscriptable'')"

subsection \<open>Strings\<close>

text \<open>\<^verbatim>\<open>str.isspace\<close> and \<^verbatim>\<open>str.isdigit\<close> on one character (code points below 256); the
  class \<^verbatim>\<open>\s\<close> of \<^verbatim>\<open>re\<close> on a \<^verbatim>\<open>str\<close> pattern is the same set as \<^verbatim>\<open>isspace\<close>.\<close>

definition is_space :: "char \<Rightarrow> bool" where
  "is_space c = (let n = (of_char c :: nat)
     in (9 \<le> n \<and> n \<le> 13) \<or> (28 \<le> n \<and> n \<le> 32) \<or> n = 133 \<or> n = 160)"

definition is_digit_char :: "char \<Rightarrow> bool" where
  "is_digit_char c = (let n = (of_char c :: nat)
     in (48 \<le> n \<and> n \<le> 57) \<or> n = 178 \<or> n = 179 \<or> n = 185)"

definition py_strip :: "string \<Rightarrow> string" where
  "py_strip s = rev (dropWhile is_space (rev (dropWhile is_space s)))"

definition py_isdigit :: "string \<Rightarrow> bool" where
  "py_isdigit s = (s \<noteq> [] \<and> list_all is_digit_char s)"

definition startswith :: "string \<Rightarrow> string \<Rightarrow> bool" where
  "startswith s p = (take (length p) s = p)"

text \<open>\<^verbatim>\<open>p in s\<close> for strings.\<close>

fun py_in :: "string \<Rightarrow> string \<Rightarrow> bool" where
  "py_in p [] = (p = [])"
| "py_in p (c # cs) = (startswith (c # cs) p \<or> py_in p cs)"

text \<open>\<^verbatim>\<open>s.split(c)\<close> for a one-character separator: always at least one piece.\<close>

fun split_char :: "char \<Rightarrow> string \<Rightarrow> string list" where
  "split_char c [] = [[]]"
| "split_char c (x # xs) =
     (if x = c then [] # split_char c xs
      else (case split_char c xs of p # ps \<Rightarrow> (x # p) # ps | [] \<Rightarrow> [[x]]))"

text \<open>\<^verbatim>\<open>sep.join(xs)\<close>.\<close>

fun py_join :: "string \<Rightarrow> string list \<Rightarrow> string" where
  "py_join sep [] = []"
| "py_join sep [x] = x"
| "py_join sep (x # y # ys) = x @ sep @ py_join sep (y # ys)"

text \<open>\<^verbatim>\<open>s.split(sep)\<close> for a separator of any length; Python raises \<^verbatim>\<open>ValueError\<close> on the empty
  separator, which the code never passes. \<open>split_acc\<close> carries the piece read so far,
  reversed.\<close>

function split_acc :: "string \<Rightarrow> string \<Rightarrow> string \<Rightarrow> string list" where
  "split_acc sep acc [] = [rev acc]"
| "split_acc sep acc (c # cs) =
     (if sep \<noteq> [] \<and> startswith (c # cs) sep
      then rev acc # split_acc sep [] (drop (length sep - 1) cs)
      else split_acc sep (c # acc) cs)"
  by pat_completeness auto
termination
  by (relation "measure (\<lambda>(sep, acc, s). length s)") auto

definition py_split :: "string \<Rightarrow> string \<Rightarrow> string list" where
  "py_split s sep = split_acc sep [] s"

section \<open>Text Normalizer: the line filter of \<^verbatim>\<open>html_to_clean_text\<close>\<close>

text \<open>The characters counted as special: \<^verbatim>\<open>{}[]":,\<close>.\<close>

definition special_chars :: "char set" where
  \<open>special_chars = set ''{}[]":,''\<close>

definition special_char_count :: "string \<Rightarrow> nat" where
  "special_char_count line = length (filter (\<lambda>c. c \<in> special_chars) line)"

text \<open>
  The source compares \<^verbatim>\<open>special_char_count > len(line) * 0.3\<close> in binary floating point.
  For a length \<open>n\<close> of any string that fits in memory the product is within \<open>n * 2e-17\<close> of
  \<open>3n/10\<close> and is rounded to \<open>3n/10\<close> itself when that is an integer, so the comparison with an
  integer count is the exact one, \<open>10 * count > 3 * n\<close>.
\<close>

definition too_many_special :: "string \<Rightarrow> bool" where
  "too_many_special line = (10 * special_char_count line > 3 * length line)"

text \<open>One line survives the loop body (after \<^verbatim>\<open>line.strip()\<close>) when no \<^verbatim>\<open>continue\<close> fires.\<close>

definition keep_line :: "string \<Rightarrow> bool" where
  "keep_line line \<longleftrightarrow>
     line \<noteq> [] \<and> \<not> py_isdigit line \<and> \<not> length line \<le> 2
     \<and> \<not> (startswith line ''{'' \<or> startswith line ''['' \<or> py_in ''urn:li:'' line)
     \<and> \<not> too_many_special line"

definition clean_lines :: "string \<Rightarrow> string list" where
  "clean_lines text = filter keep_line (map py_strip (split_char CHR 0x0A text))"

definition clean_text_of :: "string \<Rightarrow> string" where
  "clean_text_of text =
     (let clean_text = py_join ''\<newline>'' (clean_lines text)
      in if length clean_text > 40000 then take 40000 clean_text else clean_text)"

section \<open>The environment: browser, clock, file system, LLM service, libraries\<close>

text \<open>
  Everything outside the three source files is a capability: a function of an environment
  state of any type \<open>'w\<close> that either raises (\<open>Inl\<close>) or returns (\<open>Inr\<close>) and leaves a new
  environment. The model appends one event to a trace at each call, so that a theorem can say
  which calls a run makes. \<^verbatim>\<open>print\<close> is not modelled.
\<close>

datatype event =
  EGet string | ECurrentUrl | EWaitH1 | EScrollHeight | EScrollTo int | EPageSource
  | ESleep rat | EUniform rat rat | EImportParser | EGenaiSetup string
  | EGenerate string | EWriteFile string string | ECallback nat nat string

record 'w world =
  trace :: "event list"
  env :: 'w

text \<open>The response object of the LLM client: the \<^verbatim>\<open>.text\<close> accessor (which may raise), the
  candidates, each with its parts when \<^verbatim>\<open>content\<close> has the attribute \<^verbatim>\<open>parts\<close>, each part with its
  text when it has the attribute \<^verbatim>\<open>text\<close>, and \<^verbatim>\<open>str(response)\<close>.\<close>

record response =
  resp_text :: "exn + string"
  resp_candidates :: "string option list option list"
  resp_repr :: string

record generation_config =
  temperature :: rat
  top_p :: rat
  top_k :: nat
  max_output_tokens :: nat

text \<open>\<open>'d\<close> is a parsed document or one of its elements (BeautifulSoup's \<^verbatim>\<open>Tag\<close>).
  \<open>drv_scroll_height\<close> and \<open>drv_scroll_to\<close> are \<^verbatim>\<open>driver.execute_script\<close> on the two scripts
  the code sends; \<open>genai_setup\<close> is \<^verbatim>\<open>genai.configure\<close> followed by \<^verbatim>\<open>GenerativeModel\<close>.\<close>

record ('w, 'd) caps =
  drv_get :: "string \<Rightarrow> 'w \<Rightarrow> (exn + unit) \<times> 'w"
  drv_current_url :: "'w \<Rightarrow> (exn + string) \<times> 'w"
  drv_wait_h1 :: "'w \<Rightarrow> (exn + unit) \<times> 'w"
  drv_scroll_height :: "'w \<Rightarrow> (exn + int) \<times> 'w"
  drv_scroll_to :: "int \<Rightarrow> 'w \<Rightarrow> (exn + unit) \<times> 'w"
  drv_page_source :: "'w \<Rightarrow> (exn + string) \<times> 'w"
  time_sleep :: "rat \<Rightarrow> 'w \<Rightarrow> 'w"
  random_uniform :: "rat \<Rightarrow> rat \<Rightarrow> 'w \<Rightarrow> rat \<times> 'w"
  import_ai_parser :: "'w \<Rightarrow> (exn + unit) \<times> 'w"
  os_getenv :: "string \<Rightarrow> 'w \<Rightarrow> string option"
  genai_setup :: "string \<Rightarrow> 'w \<Rightarrow> (exn + unit) \<times> 'w"
  generate_content :: "string \<Rightarrow> generation_config \<Rightarrow> 'w \<Rightarrow> (exn + response) \<times> 'w"
  write_file :: "string \<Rightarrow> string \<Rightarrow> 'w \<Rightarrow> (exn + unit) \<times> 'w"
  format_exc :: "exn \<Rightarrow> string"
  json_loads :: "string \<Rightarrow> exn + pyval"
  bs_parse :: "string \<Rightarrow> exn + 'd"
  bs_decompose :: "'d \<Rightarrow> 'd"
  bs_find_main :: "'d \<Rightarrow> 'd option"
  bs_find_profile_div :: "'d \<Rightarrow> 'd option"
  bs_find_profile_section :: "'d \<Rightarrow> 'd option"
  bs_find_body :: "'d \<Rightarrow> 'd option"
  bs_get_text :: "'d \<Rightarrow> string"

type_synonym ('a, 'w) act = "'w world \<Rightarrow> (exn + 'a) \<times> 'w world"

text \<open>One call of a capability, logged.\<close>

definition call :: "event \<Rightarrow> ('w \<Rightarrow> (exn + 'a) \<times> 'w) \<Rightarrow> ('a, 'w) act" where
  "call ev f s = (case f (env s) of (r, e') \<Rightarrow> (r, \<lparr>trace = trace s @ [ev], env = e'\<rparr>))"

definition bnd :: "('a, 'w) act \<Rightarrow> ('a \<Rightarrow> ('b, 'w) act) \<Rightarrow> ('b, 'w) act" where
  "bnd m f s = (case m s of (Inl e, s') \<Rightarrow> (Inl e, s') | (Inr x, s') \<Rightarrow> f x s')"

definition ret :: "'a \<Rightarrow> ('a, 'w) act" where
  "ret x s = (Inr x, s)"

definition raise :: "exn \<Rightarrow> ('a, 'w) act" where
  "raise e s = (Inl e, s)"

text \<open>\<^verbatim>\<open>try: m  except Exception as e: h(e)\<close>.\<close>

definition try_except :: "('a, 'w) act \<Rightarrow> (exn \<Rightarrow> ('a, 'w) act) \<Rightarrow> ('a, 'w) act" where
  "try_except m h s = (case m s of (Inl e, s') \<Rightarrow> h e s' | (Inr x, s') \<Rightarrow> (Inr x, s'))"

definition sleep :: "('w, 'd) caps \<Rightarrow> rat \<Rightarrow> (unit, 'w) act" where
  "sleep C t = call (ESleep t) (\<lambda>e. (Inr (), time_sleep C t e))"

definition uniform :: "('w, 'd) caps \<Rightarrow> rat \<Rightarrow> rat \<Rightarrow> (rat, 'w) act" where
  "uniform C lo hi = call (EUniform lo hi) (\<lambda>e. case random_uniform C lo hi e of (t, e') \<Rightarrow> (Inr t, e'))"

definition write_text :: "('w, 'd) caps \<Rightarrow> string \<Rightarrow> string \<Rightarrow> (unit, 'w) act" where
  "write_text C name content = call (EWriteFile name content) (write_file C name content)"

text \<open>The three-field dictionary every failure path builds.\<close>

definition failure_record :: "string \<Rightarrow> pyval \<Rightarrow> pydict" where
  "failure_record profile_url err =
     [(''profile_url'', PStr profile_url), (''error'', err), (''success'', PBool False)]"

section \<open>Text Normalizer: \<^verbatim>\<open>GeminiProfileParser.html_to_clean_text\<close>\<close>

text \<open>The fallback chain over \<^verbatim>\<open>profile_selectors\<close>, then the second look for \<^verbatim>\<open>body\<close>.\<close>

definition select_main_content :: "('w, 'd) caps \<Rightarrow> 'd \<Rightarrow> 'd option" where
  "select_main_content C soup =
     (case bs_find_main C soup of Some m \<Rightarrow> Some m | None \<Rightarrow>
      (case bs_find_profile_div C soup of Some m \<Rightarrow> Some m | None \<Rightarrow>
       (case bs_find_profile_section C soup of Some m \<Rightarrow> Some m | None \<Rightarrow>
        (case bs_find_body C soup of Some m \<Rightarrow> Some m | None \<Rightarrow> bs_find_body C soup))))"

text \<open>The body of the \<^verbatim>\<open>try\<close> block. \<^verbatim>\<open>main_content.get_text\<close> on \<^verbatim>\<open>None\<close> is an
  \<^verbatim>\<open>AttributeError\<close>.\<close>

definition html_to_clean_text_body :: "('w, 'd) caps \<Rightarrow> string \<Rightarrow> (string, 'w) act" where
  "html_to_clean_text_body C html_content s =
     (case bs_parse C html_content of
        Inl e \<Rightarrow> (Inl e, s)
      | Inr soup0 \<Rightarrow>
          (case select_main_content C (bs_decompose C soup0) of
             None \<Rightarrow> (Inl (Exn AttributeError ''NoneType object has no attribute get_text''), s)
           | Some main_content \<Rightarrow>
               (let clean_text = clean_text_of (bs_get_text C main_content)
                in bnd (write_text C ''debug_clean_preview.txt'' (take 3000 clean_text))
                     (\<lambda>_. ret clean_text) s)))"

definition html_to_clean_text :: "('w, 'd) caps \<Rightarrow> string \<Rightarrow> (string option, 'w) act" where
  "html_to_clean_text C html_content =
     try_except (bnd (html_to_clean_text_body C html_content) (\<lambda>t. ret (Some t)))
       (\<lambda>e. ret None)"

section \<open>Extraction Prompter: \<^verbatim>\<open>extract_structured_data_with_gemini\<close>\<close>

definition prompt_head :: string where
  \<open>prompt_head =
     ''You are a data extraction AI. Extract LinkedIn profile information from the text below.\<newline>''
     @ ''\<newline>''
     @ ''IMPORTANT: You MUST return a valid JSON object with ALL these fields filled in (use the actual data from the profile):\<newline>''
     @ ''\<newline>''
     @ ''{\<newline>''
     @ ''  "name": "Person's full name from the profile",\<newline>''
     @ ''  "headline": "Professional headline (what they do)",\<newline>''
     @ ''  "location": "City, State/Country",\<newline>''
     @ ''  "about": "Summary/About section text",\<newline>''
     @ ''  "current_position": "Current job title",\<newline>''
     @ ''  "current_company": "Current company name",\<newline>''
     @ ''  "experiences": [\<newline>''
     @ ''    {\<newline>''
     @ ''      "title": "Job title",\<newline>''
     @ ''      "company": "Company name",\<newline>''
     @ ''      "duration": "Jan 2020 - Present"\<newline>''
     @ ''    }\<newline>''
     @ ''  ],\<newline>''
     @ ''  "educations": [\<newline>''
     @ ''    {\<newline>''
     @ ''      "school": "University/School name",\<newline>''
     @ ''      "degree": "Degree name",\<newline>''
     @ ''      "field": "Field of study"\<newline>''
     @ ''    }\<newline>''
     @ ''  ],\<newline>''
     @ ''  "skills": ["skill1", "skill2", "skill3"]\<newline>''
     @ ''}\<newline>''
     @ ''\<newline>''
     @ ''RULES:\<newline>''
     @ ''- Extract ALL available information from the profile text\<newline>''
     @ ''- For experiences: Include up to 5 most recent jobs\<newline>''
     @ ''- For education: Include up to 3 schools\<newline>''
     @ ''- For skills: Include up to 15 skills\<newline>''
     @ ''- If a field is truly missing, use "N/A" for strings or [] for arrays\<newline>''
     @ ''- Return ONLY the JSON object, no other text\<newline>''
     @ ''- Do NOT use markdown code blocks\<newline>''
     @ ''- Make sure the JSON is valid and parseable\<newline>''
     @ ''\<newline>''
     @ ''PROFILE TEXT:\<newline>''\<close>

definition prompt_tail :: string where
  \<open>prompt_tail =
     ''\<newline>''
     @ ''\<newline>''
     @ ''JSON OUTPUT:''\<close>

definition extraction_prompt :: "string \<Rightarrow> string" where
  "extraction_prompt clean_text = prompt_head @ take 20000 clean_text @ prompt_tail"

definition the_generation_config :: generation_config where
  "the_generation_config =
     \<lparr>temperature = 1 / 10, top_p = 8 / 10, top_k = 40, max_output_tokens = 2048\<rparr>"

subsection \<open>The text of the response (source lines 198 to 227)\<close>

definition parts_text :: "response \<Rightarrow> string list" where
  "parts_text response =
     concat (map (\<lambda>candidate. case candidate of
                     None \<Rightarrow> []
                   | Some parts \<Rightarrow> concat (map (\<lambda>part. case part of None \<Rightarrow> [] | Some t \<Rightarrow> [t]) parts))
                 (resp_candidates response))"

text \<open>The result \<open>None\<close> is the early \<^verbatim>\<open>return None\<close> of the enclosing function.\<close>

definition response_text_of :: "('w, 'd) caps \<Rightarrow> response \<Rightarrow> (string option, 'w) act" where
  "response_text_of C response =
     (case resp_text response of
        Inr t \<Rightarrow> ret (Some (py_strip t))
      | Inl e \<Rightarrow>
          if \<not> is_instance e ValueError then raise e
          else if resp_candidates response = [] then ret None
          else if parts_text response = []
            then bnd (write_text C ''debug_gemini_full_response.txt'' (resp_repr response))
                   (\<lambda>_. ret None)
          else ret (Some (py_strip (py_join ''\<newline>'' (parts_text response)))))"

subsection \<open>Stripping the framing (source lines 236 to 247)\<close>

text \<open>\<^verbatim>\<open>t.split(fence)[1].split('```')[0].strip()\<close>; an index out of range is an
  \<^verbatim>\<open>IndexError\<close>.\<close>

definition fence_body :: "string \<Rightarrow> string \<Rightarrow> exn + string" where
  "fence_body t fence =
     (case py_split t fence of
        _ # p # _ \<Rightarrow>
          (case py_split p ''```'' of
             q # _ \<Rightarrow> Inr (py_strip q)
           | [] \<Rightarrow> Inl (Exn IndexError ''list index out of range''))
      | _ \<Rightarrow> Inl (Exn IndexError ''list index out of range''))"

definition strip_code_fence :: "string \<Rightarrow> exn + string" where
  "strip_code_fence t =
     (if py_in ''```json'' t then fence_body t ''```json''
      else if py_in ''```'' t then fence_body t ''```''
      else Inr t)"

text \<open>\<^verbatim>\<open>t[t.index('{'):]\<close> and \<^verbatim>\<open>t[:t.rindex('}')+1]\<close>, each under its \<^verbatim>\<open>in\<close> test.\<close>

definition from_first_brace :: "string \<Rightarrow> string" where
  "from_first_brace t =
     (if py_in ''{'' t then dropWhile (\<lambda>c. c \<noteq> CHR ''{'') t else t)"

definition upto_last_brace :: "string \<Rightarrow> string" where
  "upto_last_brace t =
     (if py_in ''}'' t then rev (dropWhile (\<lambda>c. c \<noteq> CHR ''}'') (rev t)) else t)"

subsection \<open>Parsing with one repair (source lines 252 to 260)\<close>

text \<open>The regular expression \<^verbatim>\<open>,(\s*[}\]])\<close> replaced by its group: a comma is dropped when
  the first character after it that is not white space is a closing brace or bracket. The
  characters of a match after the comma are no commas, so dropping commas one at a time,
  left to right, is what \<^verbatim>\<open>re.sub\<close> does.\<close>

definition before_closer :: "string \<Rightarrow> bool" where
  "before_closer cs =
     (case dropWhile is_space cs of [] \<Rightarrow> False | d # _ \<Rightarrow> d = CHR ''}'' \<or> d = CHR '']'')"

fun strip_trailing_commas :: "string \<Rightarrow> string" where
  "strip_trailing_commas [] = []"
| "strip_trailing_commas (c # cs) =
     (if c = CHR '','' \<and> before_closer cs then strip_trailing_commas cs
      else c # strip_trailing_commas cs)"

definition json_repair :: "string \<Rightarrow> string" where
  "json_repair t = strip_trailing_commas (map (\<lambda>c. if c = CHR 0x27 then CHR 0x22 else c) t)"

text \<open>The parse and, with it, the value of \<^verbatim>\<open>response_text\<close> when the parse is over.\<close>

definition parse_json :: "('w, 'd) caps \<Rightarrow> string \<Rightarrow> (exn + pyval) \<times> string" where
  "parse_json C t =
     (case json_loads C t of
        Inr v \<Rightarrow> (Inr v, t)
      | Inl e \<Rightarrow>
          if is_instance e JSONDecodeError
          then (json_loads C (json_repair t), json_repair t)
          else (Inl e, t))"

subsection \<open>Completing the record (source lines 262 to 285)\<close>

definition na :: pyval where
  "na = PStr ''N/A''"

definition placeholder_experiences :: pyval where
  "placeholder_experiences =
     PList [PDict [(''title'', na), (''company'', na), (''duration'', na)]]"

definition placeholder_educations :: pyval where
  "placeholder_educations =
     PList [PDict [(''school'', na), (''degree'', na), (''field'', na)]]"

definition placeholder_skills :: pyval where
  "placeholder_skills = PList [na]"

text \<open>\<^verbatim>\<open>if not d.get(k) or len(d.get(k, [])) == 0: d[k] = dflt\<close>.\<close>

definition default_if_empty :: "pydict \<Rightarrow> string \<Rightarrow> pyval \<Rightarrow> exn + pydict" where
  "default_if_empty d k dflt =
     (if \<not> py_truthy (dict_get_default d k PNone) then Inr (dict_set d k dflt)
      else (case py_len (dict_get_default d k (PList [])) of
              Inl e \<Rightarrow> Inl e
            | Inr n \<Rightarrow> if n = 0 then Inr (dict_set d k dflt) else Inr d))"

text \<open>The summary that is printed evaluates a slice of the headline and three lengths, each
  of which raises on a value of the wrong type.\<close>

definition print_summary :: "pydict \<Rightarrow> exn + unit" where
  "print_summary d =
     (case py_slice_to 50 (dict_get_default d ''headline'' na) of
        Inl e \<Rightarrow> Inl e
      | Inr _ \<Rightarrow>
     (case py_len (dict_get_default d ''experiences'' (PList [])) of
        Inl e \<Rightarrow> Inl e
      | Inr _ \<Rightarrow>
     (case py_len (dict_get_default d ''educations'' (PList [])) of
        Inl e \<Rightarrow> Inl e
      | Inr _ \<Rightarrow>
     (case py_len (dict_get_default d ''skills'' (PList [])) of
        Inl e \<Rightarrow> Inl e
      | Inr _ \<Rightarrow> Inr ()))))"

text \<open>Item assignment on a value that is no dictionary is a \<^verbatim>\<open>TypeError\<close>.\<close>

definition finalize_profile :: "pyval \<Rightarrow> string \<Rightarrow> exn + pydict" where
  "finalize_profile profile_data profile_url =
     (case profile_data of
        PDict d0 \<Rightarrow>
          (let d1 = dict_set d0 ''profile_url'' (PStr profile_url);
               d2 = dict_set d1 ''success'' (PBool True);
               d3 = dict_set d2 ''error'' PNone
           in case default_if_empty d3 ''experiences'' placeholder_experiences of
                Inl e \<Rightarrow> Inl e
              | Inr d4 \<Rightarrow>
             (case default_if_empty d4 ''educations'' placeholder_educations of
                Inl e \<Rightarrow> Inl e
              | Inr d5 \<Rightarrow>
             (case default_if_empty d5 ''skills'' placeholder_skills of
                Inl e \<Rightarrow> Inl e
              | Inr d6 \<Rightarrow>
             (case print_summary d6 of Inl e \<Rightarrow> Inl e | Inr _ \<Rightarrow> Inr d6))))
      | _ \<Rightarrow> Inl (Exn TypeError ''object does not support item assignment''))"

subsection \<open>The two handlers and the whole function\<close>

text \<open>\<open>response_text\<close> is \<open>None\<close> while the variable is unbound; the first handler reads it, and
  reading an unbound local is an \<^verbatim>\<open>UnboundLocalError\<close>, a \<^verbatim>\<open>NameError\<close>. An exception of a
  handler leaves the function.\<close>

definition gemini_except ::
  "('w, 'd) caps \<Rightarrow> string \<Rightarrow> string option \<Rightarrow> exn \<Rightarrow> (pydict option, 'w) act" where
  "gemini_except C clean_text response_text e =
     (if is_instance e JSONDecodeError then
        (case response_text of
           None \<Rightarrow> raise (Exn NameError ''local variable response_text referenced before assignment'')
         | Some rt \<Rightarrow>
             bnd (write_text C ''debug_gemini_failed.txt''
                    (''Error: '' @ exn_str e @ ''\<newline>\<newline>Response:\<newline>'' @ rt))
               (\<lambda>_. ret None))
      else
        bnd (write_text C ''debug_gemini_error.txt''
               (''Error: '' @ exn_str e @ ''\<newline>\<newline>'' @ ''Traceback:\<newline>'' @ format_exc C e
                @ ''\<newline>\<newline>Clean text preview (first 1000 chars):\<newline>''
                @ (if clean_text \<noteq> [] then take 1000 clean_text else ''No clean text'')))
          (\<lambda>_. ret None))"

definition extract_structured_data_with_gemini ::
  "('w, 'd) caps \<Rightarrow> string \<Rightarrow> string \<Rightarrow> (pydict option, 'w) act" where
  "extract_structured_data_with_gemini C clean_text profile_url s =
     (case call (EGenerate (extraction_prompt clean_text))
             (generate_content C (extraction_prompt clean_text) the_generation_config) s of
        (Inl e, s1) \<Rightarrow> gemini_except C clean_text None e s1
      | (Inr response, s1) \<Rightarrow>
     (case response_text_of C response s1 of
        (Inl e, s2) \<Rightarrow> gemini_except C clean_text None e s2
      | (Inr None, s2) \<Rightarrow> (Inr None, s2)
      | (Inr (Some raw), s2) \<Rightarrow>
     (case write_text C ''debug_gemini_response.txt'' raw s2 of
        (Inl e, s3) \<Rightarrow> gemini_except C clean_text (Some raw) e s3
      | (Inr _, s3) \<Rightarrow>
     (case strip_code_fence raw of
        Inl e \<Rightarrow> gemini_except C clean_text (Some raw) e s3
      | Inr unfenced \<Rightarrow>
     (case parse_json C (upto_last_brace (from_first_brace unfenced)) of
        (Inl e, response_text) \<Rightarrow> gemini_except C clean_text (Some response_text) e s3
      | (Inr profile_data, response_text) \<Rightarrow>
     (case finalize_profile profile_data profile_url of
        Inl e \<Rightarrow> gemini_except C clean_text (Some response_text) e s3
      | Inr record \<Rightarrow> (Inr (Some record), s3)))))))"

section \<open>\<^verbatim>\<open>extract_structured_data\<close>, \<^verbatim>\<open>parse_profile\<close> and the constructor\<close>

definition extract_structured_data ::
  "('w, 'd) caps \<Rightarrow> string \<Rightarrow> string \<Rightarrow> (pydict, 'w) act" where
  "extract_structured_data C clean_text profile_url =
     try_except
       (bnd (extract_structured_data_with_gemini C clean_text profile_url)
          (\<lambda>result. case result of
               None \<Rightarrow> ret (failure_record profile_url (PStr ''Gemini extraction failed''))
             | Some d \<Rightarrow>
                 if d \<noteq> [] then ret d
                 else ret (failure_record profile_url (PStr ''Gemini extraction failed''))))
       (\<lambda>e. ret (failure_record profile_url (PStr (exn_str e))))"

definition parse_profile :: "('w, 'd) caps \<Rightarrow> string \<Rightarrow> (pydict, 'w) act" where
  "parse_profile C profile_url =
     try_except
       (bnd (sleep C 2) (\<lambda>_.
        bnd (call EPageSource (drv_page_source C)) (\<lambda>html_content.
        bnd (html_to_clean_text C html_content) (\<lambda>clean_text.
          case clean_text of
            None \<Rightarrow> ret (failure_record profile_url (PStr ''Failed to extract text from HTML''))
          | Some t \<Rightarrow>
              if t = [] \<or> length t < 100
              then ret (failure_record profile_url (PStr ''Failed to extract text from HTML''))
              else
                bnd (write_text C ''debug_clean_text.txt'' t) (\<lambda>_.
                bnd (extract_structured_data C t profile_url) (\<lambda>profile_data.
                  if profile_data = []
                     \<or> \<not> py_truthy (dict_get_default profile_data ''success'' PNone)
                  then ret (failure_record profile_url
                              (dict_get_default profile_data ''error''
                                 (PStr ''Failed to extract structured data'')))
                  else ret profile_data))))))
       (\<lambda>e. ret (failure_record profile_url (PStr (exn_str e))))"



text \<open>Vocabulary of the statements: a field that holds a value of positive length, the six
  scalar fields of a profile, a field that is no list of more than \<open>n\<close> entries, the prompts
  sent to the LLM service in a trace, and a comma that the repair would drop.\<close>

definition nonempty_field :: "pydict \<Rightarrow> string \<Rightarrow> bool" where
  "nonempty_field r k =
     (case dict_get r k of
        None \<Rightarrow> False
      | Some v \<Rightarrow> (case py_len v of Inl _ \<Rightarrow> False | Inr n \<Rightarrow> 0 < n))"



fun generate_calls :: "event list \<Rightarrow> string list" where
  "generate_calls [] = []"
| "generate_calls (EGenerate p # evs) = p # generate_calls evs"
| "generate_calls (_ # evs) = generate_calls evs"

fun comma_before_closer :: "string \<Rightarrow> bool" where
  "comma_before_closer [] = False"
| "comma_before_closer (c # cs) = ((c = CHR '','' \<and> before_closer cs) \<or> comma_before_closer cs)"

section \<open>Profile Pipeline: \<^verbatim>\<open>LinkedInScraper\<close>\<close>

text \<open>
  The inner loop of \<^verbatim>\<open>smooth_scroll\<close> runs while the position is below a height that the
  page may keep raising, so it need not end: the functions that reach it return an option,
  \<open>None\<close> for a run that never returns.
\<close>

type_synonym ('a, 'w) pact = "'w world \<Rightarrow> ((exn + 'a) \<times> 'w world) option"

definition lift :: "('a, 'w) act \<Rightarrow> ('a, 'w) pact" where
  "lift m s = Some (m s)"

definition pbnd :: "('a, 'w) pact \<Rightarrow> ('a \<Rightarrow> ('b, 'w) pact) \<Rightarrow> ('b, 'w) pact" where
  "pbnd m f s =
     (case m s of
        None \<Rightarrow> None
      | Some (Inl e, s') \<Rightarrow> Some (Inl e, s')
      | Some (Inr x, s') \<Rightarrow> f x s')"

definition ptry :: "('a, 'w) pact \<Rightarrow> (exn \<Rightarrow> ('a, 'w) pact) \<Rightarrow> ('a, 'w) pact" where
  "ptry m h s =
     (case m s of
        None \<Rightarrow> None
      | Some (Inl e, s') \<Rightarrow> h e s'
      | Some (Inr x, s') \<Rightarrow> Some (Inr x, s'))"

definition human_like_delay :: "('w, 'd) caps \<Rightarrow> rat \<Rightarrow> rat \<Rightarrow> (unit, 'w) act" where
  "human_like_delay C min_seconds max_seconds =
     bnd (uniform C min_seconds max_seconds) (\<lambda>t. sleep C t)"

partial_function (option) scroll_loop ::
  "('w, 'd) caps \<Rightarrow> rat \<Rightarrow> int \<Rightarrow> int \<Rightarrow> 'w world \<Rightarrow> ((exn + unit) \<times> 'w world) option" where
  "scroll_loop C scroll_pause_time current_position last_height s =
     (if current_position < last_height then
        (case call (EScrollTo (current_position + 400))
                (drv_scroll_to C (current_position + 400)) s of
           (Inl e, s1) \<Rightarrow> Some (Inl e, s1)
         | (Inr _, s1) \<Rightarrow>
        (case sleep C scroll_pause_time s1 of
           (Inl e, s2) \<Rightarrow> Some (Inl e, s2)
         | (Inr _, s2) \<Rightarrow>
        (case call EScrollHeight (drv_scroll_height C) s2 of
           (Inl e, s3) \<Rightarrow> Some (Inl e, s3)
         | (Inr new_height, s3) \<Rightarrow>
             scroll_loop C scroll_pause_time (current_position + 400)
               (if new_height > last_height then new_height else last_height) s3)))
      else Some (Inr (), s))"

declare scroll_loop.simps [code]

definition scroll_pass :: "('w, 'd) caps \<Rightarrow> (unit, 'w) pact" where
  "scroll_pass C =
     pbnd (lift (call EScrollHeight (drv_scroll_height C))) (\<lambda>last_height.
     pbnd (lift (uniform C (8 / 10) (15 / 10))) (\<lambda>scroll_pause_time.
     pbnd (scroll_loop C scroll_pause_time 0 last_height) (\<lambda>_.
     lift (sleep C 1))))"

definition smooth_scroll :: "('w, 'd) caps \<Rightarrow> (unit, 'w) pact" where
  "smooth_scroll C =
     ptry (pbnd (lift (sleep C 2)) (\<lambda>_.
           pbnd (scroll_pass C) (\<lambda>_.
           pbnd (scroll_pass C) (\<lambda>_.
           pbnd (scroll_pass C) (\<lambda>_.
           pbnd (lift (call (EScrollTo 0) (drv_scroll_to C 0))) (\<lambda>_.
           lift (sleep C 1)))))))
       (\<lambda>e. lift (ret ()))"

text \<open>\<^verbatim>\<open>navigate_to_profile\<close> returns the pair \<^verbatim>\<open>(success, message)\<close>. The wait for the
  heading is under a bare \<^verbatim>\<open>except\<close>.\<close>

definition navigate_to_profile :: "('w, 'd) caps \<Rightarrow> string \<Rightarrow> (bool \<times> string, 'w) pact" where
  "navigate_to_profile C profile_url =
     ptry (pbnd (lift (call (EGet profile_url) (drv_get C profile_url))) (\<lambda>_.
           pbnd (lift (human_like_delay C 4 6)) (\<lambda>_.
           pbnd (lift (call ECurrentUrl (drv_current_url C))) (\<lambda>current_url.
             if py_in ''checkpoint'' current_url \<or> py_in ''authwall'' current_url
             then lift (ret (False, ''CAPTCHA or authentication required''))
             else if py_in ''login'' current_url
             then lift (ret (False, ''Redirected to login - session may have expired''))
             else
               pbnd (lift (try_except (call EWaitH1 (drv_wait_h1 C)) (\<lambda>e. ret ()))) (\<lambda>_.
               pbnd (smooth_scroll C) (\<lambda>_.
               lift (ret (True, ''Success''))))))))
       (\<lambda>e. lift (ret (False, exn_str e)))"






section \<open>A concrete environment for the worked runs\<close>

text \<open>
  The theorems below hold for every environment. The worked runs need one: a reading of the
  JSON grammar for \<^verbatim>\<open>json.loads\<close> (objects, arrays, strings with the one-character escapes,
  integers and the three literals; a text outside this fragment is rejected, so the runs
  stay inside it) and a browser, clock, file system and LLM service that answer the same
  way at every call.
\<close>

definition is_json_ws :: "char \<Rightarrow> bool" where
  "is_json_ws c = (c = CHR '' '' \<or> c = CHR 0x09 \<or> c = CHR 0x0A \<or> c = CHR 0x0D)"

definition skip_ws :: "string \<Rightarrow> string" where
  "skip_ws s = dropWhile is_json_ws s"

text \<open>The characters of a string up to its closing quote; \<open>acc\<close> is the string read so far,
  reversed.\<close>

fun json_string :: "string \<Rightarrow> string \<Rightarrow> (string \<times> string) option" where
  "json_string acc [] = None"
| "json_string acc [c] = (if c = CHR 0x22 then Some (rev acc, []) else None)"
| "json_string acc (c # d # r) =
     (if c = CHR 0x22 then Some (rev acc, d # r)
      else if c = CHR 0x5C then
        (if d = CHR 0x22 \<or> d = CHR 0x5C \<or> d = CHR ''/'' then json_string (d # acc) r
         else if d = CHR ''n'' then json_string (CHR 0x0A # acc) r
         else if d = CHR ''t'' then json_string (CHR 0x09 # acc) r
         else if d = CHR ''r'' then json_string (CHR 0x0D # acc) r
         else if d = CHR ''b'' then json_string (CHR 0x08 # acc) r
         else if d = CHR ''f'' then json_string (CHR 0x0C # acc) r
         else None)
      else if (of_char c :: nat) < 32 then None
      else json_string (c # acc) (d # r))"

definition digit_val :: "char \<Rightarrow> int" where
  "digit_val c = int (of_char c) - 48"

definition is_ascii_digit :: "char \<Rightarrow> bool" where
  "is_ascii_digit c = (48 \<le> (of_char c :: nat) \<and> (of_char c :: nat) \<le> 57)"

definition json_nat :: "string \<Rightarrow> (int \<times> string) option" where
  "json_nat s =
     (case s of
        [] \<Rightarrow> None
      | c # r \<Rightarrow>
          if c = CHR ''0'' then Some (0, r)
          else if is_ascii_digit c
          then Some (foldl (\<lambda>a d. 10 * a + digit_val d) 0 (takeWhile is_ascii_digit s),
                     dropWhile is_ascii_digit s)
          else None)"

definition json_int :: "string \<Rightarrow> (pyval \<times> string) option" where
  "json_int s =
     (case (case s of
              c # r \<Rightarrow> if c = CHR ''-'' then map_option (\<lambda>(n, r'). (- n, r')) (json_nat r)
                       else json_nat s
            | [] \<Rightarrow> None) of
        None \<Rightarrow> None
      | Some (n, r) \<Rightarrow>
          (case r of
             c # _ \<Rightarrow> if c = CHR ''.'' \<or> c = CHR ''e'' \<or> c = CHR ''E'' then None
                      else Some (PInt n, r)
           | [] \<Rightarrow> Some (PInt n, r)))"

text \<open>The first argument bounds the nesting; each nested call has consumed a character, and
  \<open>json_loads_model\<close> starts from the length of the text.\<close>

fun json_value :: "nat \<Rightarrow> string \<Rightarrow> (pyval \<times> string) option"
  and json_elements :: "nat \<Rightarrow> pyval list \<Rightarrow> string \<Rightarrow> (pyval list \<times> string) option"
  and json_members :: "nat \<Rightarrow> pydict \<Rightarrow> string \<Rightarrow> (pydict \<times> string) option" where
  "json_value 0 s = None"
| "json_value (Suc n) s =
     (case skip_ws s of
        [] \<Rightarrow> None
      | c # r \<Rightarrow>
          if c = CHR ''{'' then
            (case skip_ws r of
               [] \<Rightarrow> None
             | c' # r' \<Rightarrow>
                 if c' = CHR ''}'' then Some (PDict [], r')
                 else map_option (\<lambda>(d, r''). (PDict d, r'')) (json_members n [] r))
          else if c = CHR ''['' then
            (case skip_ws r of
               [] \<Rightarrow> None
             | c' # r' \<Rightarrow>
                 if c' = CHR '']'' then Some (PList [], r')
                 else map_option (\<lambda>(xs, r''). (PList xs, r'')) (json_elements n [] r))
          else if c = CHR 0x22 then map_option (\<lambda>(t, r'). (PStr t, r')) (json_string [] r)
          else if startswith (c # r) ''true'' then Some (PBool True, drop 4 (c # r))
          else if startswith (c # r) ''false'' then Some (PBool False, drop 5 (c # r))
          else if startswith (c # r) ''null'' then Some (PNone, drop 4 (c # r))
          else json_int (c # r))"
| "json_elements 0 acc s = None"
| "json_elements (Suc n) acc s =
     (case json_value n s of
        None \<Rightarrow> None
      | Some (v, r) \<Rightarrow>
          (case skip_ws r of
             [] \<Rightarrow> None
           | c # r' \<Rightarrow>
               if c = CHR '','' then json_elements n (acc @ [v]) r'
               else if c = CHR '']'' then Some (acc @ [v], r')
               else None))"
| "json_members 0 d s = None"
| "json_members (Suc n) d s =
     (case skip_ws s of
        [] \<Rightarrow> None
      | q # r \<Rightarrow>
          if q \<noteq> CHR 0x22 then None
          else
            (case json_string [] r of
               None \<Rightarrow> None
             | Some (k, r1) \<Rightarrow>
                 (case skip_ws r1 of
                    [] \<Rightarrow> None
                  | c # r2 \<Rightarrow>
                      if c \<noteq> CHR '':'' then None
                      else
                        (case json_value n r2 of
                           None \<Rightarrow> None
                         | Some (v, r3) \<Rightarrow>
                             (case skip_ws r3 of
                                [] \<Rightarrow> None
                              | c' # r4 \<Rightarrow>
                                  if c' = CHR '','' then json_members n (dict_set d k v) r4
                                  else if c' = CHR ''}'' then Some (dict_set d k v, r4)
                                  else None)))))"

definition json_loads_model :: "string \<Rightarrow> exn + pyval" where
  "json_loads_model s =
     (case json_value (Suc (length s)) s of
        None \<Rightarrow> Inl (Exn JSONDecodeError ''Expecting value'')
      | Some (v, r) \<Rightarrow>
          if skip_ws r = [] then Inr v else Inl (Exn JSONDecodeError ''Extra data''))"

text \<open>A logged-in session on a profile page: the page has a \<^verbatim>\<open>main\<close> element whose text is the
  page itself, the page is 800 units high, \<^verbatim>\<open>GEMINI_API_KEY\<close> has the value given (or is unset)
  and the LLM answers with the text given.\<close>

definition demo_caps :: "string option \<Rightarrow> string \<Rightarrow> string \<Rightarrow> (unit, string) caps" where
  "demo_caps api_key page llm_text =
     \<lparr> drv_get = (\<lambda>url w. (Inr (), w)),
       drv_current_url = (\<lambda>w. (Inr ''https://www.linkedin.com/in/jane-doe/'', w)),
       drv_wait_h1 = (\<lambda>w. (Inr (), w)),
       drv_scroll_height = (\<lambda>w. (Inr 800, w)),
       drv_scroll_to = (\<lambda>y w. (Inr (), w)),
       drv_page_source = (\<lambda>w. (Inr page, w)),
       time_sleep = (\<lambda>t w. w),
       random_uniform = (\<lambda>lo hi w. (lo, w)),
       import_ai_parser = (\<lambda>w. (Inr (), w)),
       os_getenv = (\<lambda>name w. if name = ''GEMINI_API_KEY'' then api_key else None),
       genai_setup = (\<lambda>key w. (Inr (), w)),
       generate_content = (\<lambda>prompt config w.
          (Inr \<lparr>resp_text = Inr llm_text, resp_candidates = [], resp_repr = []\<rparr>, w)),
       write_file = (\<lambda>name content w. (Inr (), w)),
       format_exc = exn_str,
       json_loads = json_loads_model,
       bs_parse = Inr,
       bs_decompose = (\<lambda>d. d),
       bs_find_main = Some,
       bs_find_profile_div = (\<lambda>d. None),
       bs_find_profile_section = (\<lambda>d. None),
       bs_find_body = Some,
       bs_get_text = (\<lambda>d. d) \<rparr>"

definition world0 :: "unit world" where
  "world0 = \<lparr>trace = [], env = ()\<rparr>"

definition demo_key :: "string option" where
  "demo_key = Some ''AIza-demo-key''"

definition demo_page :: string where
  "demo_page =
     ''Jane Doe\<newline>''
     @ ''Senior Software Engineer at Acme Corporation\<newline>''
     @ ''San Francisco Bay Area\<newline>''
     @ ''500\<newline>''
     @ ''Experienced engineer building data pipelines''"

definition demo_url :: string where
  "demo_url = ''https://www.linkedin.com/in/jane-doe/''"


definition short_page :: string where
  "short_page = ''Jane Doe\<newline>12\<newline>Engineer at Acme''"






text \<open>Three answers of the LLM service: a fenced object with an empty list of experiences and
  no educations, an object with sixteen skills, and the empty object.\<close>

definition llm_fenced :: string where
  \<open>llm_fenced =
     ''```json\<newline>''
     @ ''{"name": "Jane Doe", "headline": "Senior Software Engineer", ''
     @ ''"experiences": [], "skills": ["Python", "SQL"]}\<newline>''
     @ ''```''\<close>







section \<open>Properties of the Text Normalizer\<close>

lemma split_char_nonempty: "split_char c s \<noteq> []"
  by (induction s) (auto split: list.splits)

lemma split_char_pieces: "p \<in> set (split_char c s) \<Longrightarrow> c \<notin> set p"
  by (induction s arbitrary: p) (auto split: list.splits if_splits)

lemma split_char_append: "c \<notin> set x \<Longrightarrow> split_char c (x @ c # r) = x # split_char c r"
  by (induction x) auto

lemma split_char_no_sep: "c \<notin> set x \<Longrightarrow> split_char c x = [x]"
  by (induction x) auto

lemma split_char_join:
  "ls \<noteq> [] \<Longrightarrow> \<forall>l\<in>set ls. c \<notin> set l \<Longrightarrow> split_char c (py_join [c] ls) = ls"
  by (induction "[c]" ls rule: py_join.induct) (auto simp: split_char_append split_char_no_sep)

text \<open>Cutting a text cuts its list of lines: all lines but the last of the cut text are
  lines of the whole text.\<close>

lemma split_char_take:
  "\<exists>j<length (split_char c s). butlast (split_char c (take n s)) = take j (split_char c s)"
proof (induction s arbitrary: n)
  case Nil
  then show ?case by simp
next
  case (Cons x xs)
  show ?case
  proof (cases n)
    case 0
    then show ?thesis by (auto split: list.splits)
  next
    case (Suc m)
    from Cons.IH[of m] obtain j where j: "j < length (split_char c xs)"
      "butlast (split_char c (take m xs)) = take j (split_char c xs)" by blast
    show ?thesis
    proof (cases "x = c")
      case True
      with j Suc show ?thesis
        by (intro exI[of _ "Suc j"]) (simp add: split_char_nonempty)
    next
      case False
      obtain p ps where L: "split_char c xs = p # ps"
        using split_char_nonempty[of c xs] by (cases "split_char c xs") auto
      obtain q qs where L': "split_char c (take m xs) = q # qs"
        using split_char_nonempty[of c "take m xs"] by (cases "split_char c (take m xs)") auto
      show ?thesis
      proof (cases qs)
        case Nil
        with False Suc L L' show ?thesis by (intro exI[of _ 0]) simp
      next
        case (Cons q' qs')
        with j L L' have "j \<noteq> 0" by (cases j) auto
        then obtain j' where "j = Suc j'" by (cases j) auto
        with j L L' Cons False Suc show ?thesis
          by (intro exI[of _ j]) auto
      qed
    qed
  qed
qed

lemma set_py_strip: "set (py_strip l) \<subseteq> set l"
proof
  fix x assume "x \<in> set (py_strip l)"
  then have "x \<in> set (dropWhile is_space (rev (dropWhile is_space l)))"
    by (simp add: py_strip_def)
  then have "x \<in> set (dropWhile is_space l)" using set_dropWhileD by fastforce
  then show "x \<in> set l" by (rule set_dropWhileD)
qed

lemma py_strip_id:
  assumes "l \<noteq> []" "\<not> is_space (hd l)" "\<not> is_space (last l)"
  shows "py_strip l = l"
proof -
  from assms have 1: "dropWhile is_space l = l" by (cases l) auto
  from assms have "rev l \<noteq> []" "\<not> is_space (hd (rev l))" by (auto simp: hd_rev)
  then have 2: "dropWhile is_space (rev l) = rev l" by (cases "rev l") auto
  show ?thesis by (simp add: py_strip_def 1 2)
qed

lemma py_in_hd: "p \<noteq> [] \<Longrightarrow> hd p \<notin> set s \<Longrightarrow> \<not> py_in p s"
  by (induction s) (auto simp: startswith_def hd_conv_nth take_Suc_conv_app_nth neq_Nil_conv)

lemma clean_lines_no_newline: "l \<in> set (clean_lines text) \<Longrightarrow> CHR 0x0A \<notin> set l"
  unfolding clean_lines_def using set_py_strip split_char_pieces by fastforce

lemma clean_lines_keep: "l \<in> set (clean_lines text) \<Longrightarrow> keep_line l"
  by (simp add: clean_lines_def)

lemma clean_text_of_take:
  "clean_text_of text = take 40000 (py_join ''\<newline>'' (clean_lines text))"
  by (simp add: clean_text_of_def Let_def)

lemma split_clean_lines:
  "clean_lines text \<noteq> [] \<Longrightarrow>
     split_char CHR 0x0A (py_join ''\<newline>'' (clean_lines text)) = clean_lines text"
  using clean_lines_no_newline by (intro split_char_join) auto

lemma clean_text_of_butlast:
  assumes "l \<in> set (butlast (split_char CHR 0x0A (clean_text_of text)))"
  shows "l \<in> set (clean_lines text)"
proof (cases "clean_lines text = []")
  case True
  with assms show ?thesis by (simp add: clean_text_of_take)
next
  case False
  from split_char_take[of "CHR 0x0A" "py_join ''\<newline>'' (clean_lines text)" 40000]
  obtain j where "butlast (split_char CHR 0x0A (clean_text_of text)) = take j (clean_lines text)"
    unfolding clean_text_of_take split_clean_lines[OF False] by blast
  with assms show ?thesis by (auto dest: in_set_takeD)
qed

lemma clean_text_of_untruncated:
  assumes "clean_text_of text \<noteq> []" "length (clean_text_of text) < 40000"
    and "l \<in> set (split_char CHR 0x0A (clean_text_of text))"
  shows "l \<in> set (clean_lines text)"
proof -
  from assms(2) have eq: "clean_text_of text = py_join ''\<newline>'' (clean_lines text)"
    by (simp add: clean_text_of_def Let_def split: if_splits)
  with assms(1) have "clean_lines text \<noteq> []" by auto
  from split_clean_lines[OF this] assms(3) eq show ?thesis by simp
qed

lemma html_to_clean_text_result:
  assumes "html_to_clean_text C html_content s = (Inr (Some t), s')"
  shows "\<exists>text. t = clean_text_of text"
  using assms
  by (auto simp: html_to_clean_text_def html_to_clean_text_body_def try_except_def bnd_def
      ret_def Let_def split: sum.splits option.splits prod.splits)

lemma html_to_clean_text_demo:
  "html_to_clean_text (demo_caps api_key page llm_text) page s =
     (Inr (Some (clean_text_of page)),
      \<lparr>trace = trace s @ [EWriteFile ''debug_clean_preview.txt'' (take 3000 (clean_text_of page))],
       env = ()\<rparr>)"
  by (simp add: html_to_clean_text_def html_to_clean_text_body_def demo_caps_def
      select_main_content_def try_except_def bnd_def ret_def write_text_def call_def Let_def)

lemma keep_line_short: "length l < 40 \<Longrightarrow> keep_line l =
     (l \<noteq> [] \<and> \<not> py_isdigit l \<and> \<not> length l \<le> 2
     \<and> \<not> (startswith l ''{'' \<or> startswith l ''['' \<or> py_in ''urn:li:'' l)
     \<and> \<not> too_many_special l)"
  by (simp add: keep_line_def)

text \<open>A line of \<open>n\<close> letters \<open>a\<close>, and the line \<open>x1y\<close>: both pass the filter.\<close>

lemma a_line:
  assumes "3 \<le> n"
  shows "py_strip (replicate n CHR ''a'') = replicate n CHR ''a''"
    and "keep_line (replicate n CHR ''a'')"
proof -
  from assms obtain m where n: "n = Suc m" by (cases n) auto
  show "py_strip (replicate n CHR ''a'') = replicate n CHR ''a''"
    using assms by (intro py_strip_id) (auto simp: is_space_def n)
  have "\<not> py_isdigit (replicate n CHR ''a'')"
    by (simp add: py_isdigit_def n is_digit_char_def)
  moreover have "\<not> py_in ''urn:li:'' (replicate n CHR ''a'')"
    by (intro py_in_hd) auto
  moreover have "special_char_count (replicate n CHR ''a'') = 0"
    by (simp add: special_char_count_def special_chars_def)
  ultimately show "keep_line (replicate n CHR ''a'')"
    using assms by (simp add: keep_line_def too_many_special_def startswith_def n)
qed

lemma x1y_line: "py_strip ''x1y'' = ''x1y''" "keep_line ''x1y''"
  by (simp_all add: py_strip_def is_space_def keep_line_def py_isdigit_def is_digit_char_def
      startswith_def too_many_special_def special_char_count_def special_chars_def)

lemma clean_lines_long:
  "3 \<le> n \<Longrightarrow>
     clean_lines (replicate n CHR ''a'' @ ''\<newline>x1y'') = [replicate n CHR ''a'', ''x1y'']"
  by (simp add: clean_lines_def split_char_append split_char_no_sep a_line x1y_line
       del: split_char.simps replicate.simps)

lemma clean_text_of_long:
  "clean_text_of (replicate 39998 CHR ''a'' @ ''\<newline>x1y'') =
     replicate 39998 CHR ''a'' @ ''\<newline>x''"
  by (simp add: clean_text_of_def clean_lines_long Let_def)


text \<open>
  C7, as amended. Whenever \<^verbatim>\<open>html_to_clean_text\<close> returns a string, the string has at most
  40000 characters; each of its lines except the last is not all digits, is longer than two
  characters and has at most 30 percent special characters; and so has the last line when
  the string is not empty and shorter than 40000 characters, which is when nothing was cut.
  The result is a function of the markup and the environment.
\<close>

theorem html_to_clean_text_bounded:
  assumes "html_to_clean_text C html_content s = (Inr (Some t), s')"
  shows "length t \<le> 40000
    \<and> (\<forall>l \<in> set (butlast (split_char CHR 0x0A t)).
          \<not> py_isdigit l \<and> 2 < length l \<and> \<not> too_many_special l)
    \<and> (t \<noteq> [] \<and> length t < 40000 \<longrightarrow>
         (\<forall>l \<in> set (split_char CHR 0x0A t).
            \<not> py_isdigit l \<and> 2 < length l \<and> \<not> too_many_special l))"
proof -
  from html_to_clean_text_result[OF assms] obtain body where t: "t = clean_text_of body" ..
  have len: "length t \<le> 40000" by (simp add: t clean_text_of_take)
  have ok: "\<not> py_isdigit l \<and> 2 < length l \<and> \<not> too_many_special l"
    if "l \<in> set (clean_lines body)" for l
    using clean_lines_keep[OF that] by (simp add: keep_line_def)
  have most: "\<forall>l \<in> set (butlast (split_char CHR 0x0A t)).
          \<not> py_isdigit l \<and> 2 < length l \<and> \<not> too_many_special l"
    using clean_text_of_butlast ok unfolding t by blast
  have all: "t \<noteq> [] \<and> length t < 40000 \<longrightarrow>
         (\<forall>l \<in> set (split_char CHR 0x0A t).
            \<not> py_isdigit l \<and> 2 < length l \<and> \<not> too_many_special l)"
    using clean_text_of_untruncated ok unfolding t by blast
  from len most all show ?thesis by blast
qed

text \<open>The theorem at a page of three lines, of which the filter drops the second.\<close>

theorem html_to_clean_text_bounded_witness:
  "html_to_clean_text (demo_caps demo_key ''Jane Doe\<newline>12\<newline>Engineer at Acme'' [])
      ''Jane Doe\<newline>12\<newline>Engineer at Acme'' world0
     = (Inr (Some ''Jane Doe\<newline>Engineer at Acme''),
        \<lparr>trace = [EWriteFile ''debug_clean_preview.txt'' ''Jane Doe\<newline>Engineer at Acme''],
         env = ()\<rparr>)
   \<and> length ''Jane Doe\<newline>Engineer at Acme'' \<le> 40000
   \<and> list_all (\<lambda>l. \<not> py_isdigit l \<and> 2 < length l \<and> \<not> too_many_special l)
         (split_char CHR 0x0A ''Jane Doe\<newline>Engineer at Acme'')"
proof -
  have c: "clean_text_of ''Jane Doe\<newline>12\<newline>Engineer at Acme'' = ''Jane Doe\<newline>Engineer at Acme''"
    by (simp add: clean_text_of_def clean_lines_def py_strip_def is_space_def keep_line_short
        py_isdigit_def is_digit_char_def startswith_def too_many_special_def
        special_char_count_def special_chars_def Let_def)
  have run: "html_to_clean_text (demo_caps demo_key ''Jane Doe\<newline>12\<newline>Engineer at Acme'' [])
      ''Jane Doe\<newline>12\<newline>Engineer at Acme'' world0
     = (Inr (Some ''Jane Doe\<newline>Engineer at Acme''),
        \<lparr>trace = [EWriteFile ''debug_clean_preview.txt'' ''Jane Doe\<newline>Engineer at Acme''],
         env = ()\<rparr>)"
    unfolding html_to_clean_text_demo c by (simp add: world0_def)
  from html_to_clean_text_bounded[OF run] run show ?thesis by (simp add: list_all_iff)
qed

text \<open>The claim as the specification states it fails on a text that is cut inside a line:
  39998 letters, a line break and the line \<open>x1y\<close> pass the filter whole, the cut at 40000
  leaves \<open>x\<close> as the last line of the result, a line of one character.\<close>

theorem html_to_clean_text_truncated_line:
  "fst (html_to_clean_text (demo_caps demo_key (replicate 39998 CHR ''a'' @ ''\<newline>x1y'') [])
          (replicate 39998 CHR ''a'' @ ''\<newline>x1y'') world0)
     = Inr (Some (replicate 39998 CHR ''a'' @ ''\<newline>x''))
   \<and> split_char CHR 0x0A (replicate 39998 CHR ''a'' @ ''\<newline>x'')
     = [replicate 39998 CHR ''a'', ''x'']
   \<and> length ''x'' \<le> 2"
  by (simp add: html_to_clean_text_demo clean_text_of_long split_char_append split_char_no_sep
      world0_def del: split_char.simps replicate.simps)

section \<open>Properties of the Prompter and the Pipeline\<close>







lemma nonempty_field_cong: "dict_get d' k = dict_get d k \<Longrightarrow> nonempty_field d' k = nonempty_field d k"
  by (simp add: nonempty_field_def)








lemma failure_record_nonempty: "failure_record url e \<noteq> []"
  by (simp add: failure_record_def)

lemma extract_structured_data_total:
  "\<exists>r s'. extract_structured_data C ct url s = (Inr r, s')"
  by (auto simp: extract_structured_data_def try_except_def bnd_def ret_def split: prod.splits sum.splits option.splits)


lemma parse_profile_total: "\<exists>r s'. parse_profile C url s = (Inr r, s')"
  by (simp add: parse_profile_def try_except_def ret_def split: prod.splits sum.splits)




lemma generate_calls_append: "generate_calls (a @ b) = generate_calls a @ generate_calls b"
  by (induction a rule: generate_calls.induct) auto

lemma html_to_clean_text_trace:
  assumes "html_to_clean_text C html_content s = (x, s')"
  shows "generate_calls (trace s') = generate_calls (trace s)"
  using assms
  by (auto simp: html_to_clean_text_def html_to_clean_text_body_def try_except_def bnd_def
      ret_def write_text_def call_def Let_def generate_calls_append
      split: sum.splits option.splits prod.splits)



lemma navigate_total_msg:
  "navigate_to_profile C url s = Some (r, s') \<Longrightarrow> \<exists>ok msg. r = Inr (ok, msg)"
  by (auto simp: navigate_to_profile_def ptry_def lift_def ret_def split: option.splits sum.splits prod.splits)






section \<open>Runs in the concrete environment\<close>

lemma demo_fields [simp]:
  "drv_get (demo_caps k p l) = (\<lambda>url w. (Inr (), w))"
  "drv_current_url (demo_caps k p l) = (\<lambda>w. (Inr ''https://www.linkedin.com/in/jane-doe/'', w))"
  "drv_wait_h1 (demo_caps k p l) = (\<lambda>w. (Inr (), w))"
  "drv_scroll_height (demo_caps k p l) = (\<lambda>w. (Inr 800, w))"
  "drv_scroll_to (demo_caps k p l) = (\<lambda>y w. (Inr (), w))"
  "drv_page_source (demo_caps k p l) = (\<lambda>w. (Inr p, w))"
  "time_sleep (demo_caps k p l) = (\<lambda>t w. w)"
  "random_uniform (demo_caps k p l) = (\<lambda>lo hi w. (lo, w))"
  "import_ai_parser (demo_caps k p l) = (\<lambda>w. (Inr (), w))"
  "os_getenv (demo_caps k p l) = (\<lambda>name w. if name = ''GEMINI_API_KEY'' then k else None)"
  "genai_setup (demo_caps k p l) = (\<lambda>key w. (Inr (), w))"
  "generate_content (demo_caps k p l) = (\<lambda>prompt config w.
          (Inr \<lparr>resp_text = Inr l, resp_candidates = [], resp_repr = []\<rparr>, w))"
  "write_file (demo_caps k p l) = (\<lambda>name content w. (Inr (), w))"
  "json_loads (demo_caps k p l) = json_loads_model"
  by (simp_all add: demo_caps_def)










lemmas json_defs = json_loads_model_def skip_ws_def is_json_ws_def startswith_def json_int_def
  json_nat_def is_ascii_digit_def digit_val_def














section \<open>The claims about the Prompter and the Pipeline\<close>















lemma strip_trailing_commas_id: "\<not> comma_before_closer t \<Longrightarrow> strip_trailing_commas t = t"
  by (induction t) auto

lemma no_quote_map_id:
  "CHR 0x27 \<notin> set t \<Longrightarrow> map (\<lambda>c. if c = CHR 0x27 then CHR 0x22 else c) t = t"
  by (induction t) auto

text \<open>
  C4, as amended. The repair is applied only to a text whose first parse failed: for every
  text that \<^verbatim>\<open>json.loads\<close> accepts, the parse step returns the value of that parse and leaves
  the text as it is. The repair itself changes no text without a single quote and without a
  comma that is followed, after optional white space, by a closing brace or bracket.
\<close>

theorem repair_only_after_failed_parse:
  "(json_loads C t = Inr v \<longrightarrow> parse_json C t = (Inr v, t))
   \<and> (CHR 0x27 \<notin> set t \<and> \<not> comma_before_closer t \<longrightarrow> json_repair t = t)"
  by (simp add: parse_json_def json_repair_def strip_trailing_commas_id no_quote_map_id)

theorem repair_only_after_failed_parse_witness:
  \<open>json_loads (demo_caps demo_key demo_page llm_fenced) ''{"name": "Jane Doe"}''
     = Inr (PDict [(''name'', PStr ''Jane Doe'')])
   \<and> parse_json (demo_caps demo_key demo_page llm_fenced) ''{"name": "Jane Doe"}''
     = (Inr (PDict [(''name'', PStr ''Jane Doe'')]), ''{"name": "Jane Doe"}'')
   \<and> CHR 0x27 \<notin> set ''{"name": "Jane Doe"}''
   \<and> \<not> comma_before_closer ''{"name": "Jane Doe"}''
   \<and> json_repair ''{"name": "Jane Doe"}'' = ''{"name": "Jane Doe"}''\<close>
proof -
  have p: \<open>json_loads (demo_caps demo_key demo_page llm_fenced) ''{"name": "Jane Doe"}''
     = Inr (PDict [(''name'', PStr ''Jane Doe'')])\<close>
    by (simp add: demo_fields json_defs)
  have q: \<open>CHR 0x27 \<notin> set ''{"name": "Jane Doe"}''\<close>
    \<open>\<not> comma_before_closer ''{"name": "Jane Doe"}''\<close>
    by (simp_all add: before_closer_def is_space_def)
  from repair_only_after_failed_parse
         [of "demo_caps demo_key demo_page llm_fenced" \<open>''{"name": "Jane Doe"}''\<close>
             "PDict [(''name'', PStr ''Jane Doe'')]"] p q
  show ?thesis by blast
qed

text \<open>The claim as stated fails for the repair taken alone. A valid text with a comma and a
  closing bracket inside a string parses to another value after the repair, and a valid
  text with an apostrophe inside a string does not parse at all after it.\<close>

theorem repair_changes_valid_json:
  \<open>json_loads_model ''{"about": "Loves lists [a, b,] and code"}''
     = Inr (PDict [(''about'', PStr ''Loves lists [a, b,] and code'')])
   \<and> json_loads_model (json_repair ''{"about": "Loves lists [a, b,] and code"}'')
     = Inr (PDict [(''about'', PStr ''Loves lists [a, b] and code'')])
   \<and> json_loads_model ''{"name": "O'Brien"}''
     = Inr (PDict [(''name'', PStr (''O'' @ [CHR 0x27] @ ''Brien''))])
   \<and> json_loads_model (json_repair ''{"name": "O'Brien"}'')
     = Inl (Exn JSONDecodeError ''Expecting value'')\<close>
  by (simp add: json_defs json_repair_def before_closer_def is_space_def)






text \<open>
  C8. When the page source is read and the Normalizer returns \<^verbatim>\<open>None\<close> or a text of fewer
  than 100 characters, \<^verbatim>\<open>parse_profile\<close> returns the failure record with the error
  \<^verbatim>\<open>Failed to extract text from HTML\<close>, in the state the Normalizer left, and the trace has no
  call of the LLM service that it did not have before.
\<close>

theorem short_text_fails_without_llm:
  assumes "drv_page_source C (time_sleep C 2 (env s)) = (Inr html_content, e1)"
    and "html_to_clean_text C html_content \<lparr>trace = trace s @ [ESleep 2, EPageSource], env = e1\<rparr>
           = (Inr clean_text, s')"
    and "case clean_text of None \<Rightarrow> True | Some t \<Rightarrow> length t < 100"
  shows "parse_profile C profile_url s
           = (Inr (failure_record profile_url (PStr ''Failed to extract text from HTML'')), s')
       \<and> generate_calls (trace s') = generate_calls (trace s)"
proof -
  have "generate_calls (trace s') = generate_calls (trace s)"
    using html_to_clean_text_trace[OF assms(2)] by (simp add: generate_calls_append)
  moreover have "parse_profile C profile_url s
           = (Inr (failure_record profile_url (PStr ''Failed to extract text from HTML'')), s')"
    using assms
    by (auto simp: parse_profile_def try_except_def bnd_def ret_def sleep_def call_def
        split: option.splits)
  ultimately show ?thesis by simp
qed

text \<open>A page of three short lines: the clean text has 25 characters.\<close>

theorem short_text_fails_without_llm_witness:
  "drv_page_source (demo_caps demo_key short_page llm_fenced)
       (time_sleep (demo_caps demo_key short_page llm_fenced) 2 (env world0))
     = (Inr short_page, ())
   \<and> html_to_clean_text (demo_caps demo_key short_page llm_fenced) short_page
        \<lparr>trace = trace world0 @ [ESleep 2, EPageSource], env = ()\<rparr>
     = (Inr (Some ''Jane Doe\<newline>Engineer at Acme''),
        \<lparr>trace = [ESleep 2, EPageSource,
                  EWriteFile ''debug_clean_preview.txt'' ''Jane Doe\<newline>Engineer at Acme''],
         env = ()\<rparr>)
   \<and> length ''Jane Doe\<newline>Engineer at Acme'' < 100
   \<and> parse_profile (demo_caps demo_key short_page llm_fenced) demo_url world0
     = (Inr (failure_record demo_url (PStr ''Failed to extract text from HTML'')),
        \<lparr>trace = [ESleep 2, EPageSource,
                  EWriteFile ''debug_clean_preview.txt'' ''Jane Doe\<newline>Engineer at Acme''],
         env = ()\<rparr>)
   \<and> generate_calls [ESleep 2, EPageSource,
         EWriteFile ''debug_clean_preview.txt'' ''Jane Doe\<newline>Engineer at Acme''] = []"
proof -
  let ?C = "demo_caps demo_key short_page llm_fenced"
  have c: "clean_text_of short_page = ''Jane Doe\<newline>Engineer at Acme''"
    by (simp add: short_page_def clean_text_of_def clean_lines_def py_strip_def is_space_def
        keep_line_short py_isdigit_def is_digit_char_def startswith_def too_many_special_def
        special_char_count_def special_chars_def Let_def)
  have p: "drv_page_source ?C (time_sleep ?C 2 (env world0)) = (Inr short_page, ())"
    by (simp add: demo_fields)
  have h: "html_to_clean_text ?C short_page
        \<lparr>trace = trace world0 @ [ESleep 2, EPageSource], env = ()\<rparr>
     = (Inr (Some ''Jane Doe\<newline>Engineer at Acme''),
        \<lparr>trace = [ESleep 2, EPageSource,
                  EWriteFile ''debug_clean_preview.txt'' ''Jane Doe\<newline>Engineer at Acme''],
         env = ()\<rparr>)"
    by (simp add: html_to_clean_text_demo c world0_def)
  have l: "case Some ''Jane Doe\<newline>Engineer at Acme'' of None \<Rightarrow> True | Some t \<Rightarrow> length t < 100"
    by simp
  from short_text_fails_without_llm[OF p h l, of demo_url] p h
  show ?thesis by (simp add: world0_def)
qed





end
